theory Spec2Isabelle
  imports Main "HOL-Library.Sublist"
begin

section \<open>The command engine of LiftPlannerPro (CommandManager.h, CommandManager.cpp)\<close>

subsection \<open>Strings\<close>

text \<open>
  A \<open>QString\<close> is modelled as a \<^typ>\<open>string\<close> whose characters are the code units
  below 256. \<open>QChar::isSpace\<close> holds there for U+0009..U+000D, U+0020, U+0085 and
  U+00A0; \<open>QString::toLower\<close> maps A..Z and the Latin-1 capitals (U+00C0..U+00DE
  without U+00D7) 32 places up.
\<close>

definition isSpace :: "char \<Rightarrow> bool" where
  "isSpace c =
     (let n = (of_char c :: nat)
      in n = 32 \<or> (9 \<le> n \<and> n \<le> 13) \<or> n = 133 \<or> n = 160)"

definition toLower_char :: "char \<Rightarrow> char" where
  "toLower_char c =
     (let n = (of_char c :: nat)
      in if (65 \<le> n \<and> n \<le> 90) \<or> (192 \<le> n \<and> n \<le> 222 \<and> n \<noteq> 215)
         then char_of (n + 32) else c)"

definition toLower :: "string \<Rightarrow> string" where
  "toLower s = map toLower_char s"

definition trimmed :: "string \<Rightarrow> string" where
  "trimmed s = rev (dropWhile isSpace (rev (dropWhile isSpace s)))"

definition startsWith :: "string \<Rightarrow> char \<Rightarrow> bool" where
  "startsWith s c = (case s of [] \<Rightarrow> False | x # _ \<Rightarrow> x = c)"

text \<open>
  \<open>QString::split(sep, Qt::SkipEmptyParts)\<close>: the pieces between separators, the
  empty ones left out. \<open>cur\<close> is the piece being read.
\<close>

fun split_loop :: "char \<Rightarrow> string \<Rightarrow> string \<Rightarrow> string list" where
  "split_loop sep cur [] = (if cur = [] then [] else [cur])"
| "split_loop sep cur (c # cs) =
     (if c = sep then (if cur = [] then split_loop sep [] cs else cur # split_loop sep [] cs)
      else split_loop sep (cur @ [c]) cs)"

definition split_SkipEmptyParts :: "string \<Rightarrow> char \<Rightarrow> string list" where
  "split_SkipEmptyParts s sep = split_loop sep [] s"

subsection \<open>Commands\<close>

text \<open>
  \<open>CADCommand\<close> is an abstract class; what \<open>execute()\<close>, \<open>undo()\<close> and \<open>redo()\<close> of a
  concrete command do is opaque to the engine. A method is modelled as an effect on the
  world \<open>'w\<close> it acts on (the document, and whatever else the command touches): it
  leaves a new world and either returns (\<open>None\<close>) or throws: a \<open>std::exception\<close>
  with its \<open>what()\<close>, or an object of any other type. Every \<open>catch\<close> clause of the
  engine is \<open>catch (const std::exception&)\<close>, so the first is the failure the engine
  handles and the second passes every handler of the engine.

  \<open>Atomic\<close> stands for any command class that is not \<open>CADCommandGroup\<close>: its \<open>name()\<close>,
  its \<open>canUndo()\<close> and its three methods (\<open>redo()\<close> is virtual; the base class's
  default is the case \<open>a_redo = a_execute\<close>). \<open>CADCommandGroup\<close> has its \<open>m_name\<close> and
  its \<open>m_commands\<close>, in the order of \<open>addCommand\<close>. Its private flag \<open>m_executed\<close> is
  written by \<open>execute()\<close>, \<open>undo()\<close> and \<open>clear()\<close> and read nowhere, and no accessor
  exposes it; it is not part of the model.
\<close>

datatype thrown = std_exception string | other_exception

type_synonym 'w effect = "'w \<Rightarrow> thrown option \<times> 'w"

datatype 'w CADCommand =
    Atomic (a_name: string) (a_canUndo: bool)
           (a_execute: "'w effect") (a_undo: "'w effect") (a_redo: "'w effect")
  | CADCommandGroup string "'w CADCommand list"

fun cmd_name :: "'w CADCommand \<Rightarrow> string" where
  "cmd_name (Atomic n cu e u r) = n"
| "cmd_name (CADCommandGroup n cs) = n"

text \<open>\<open>CADCommandGroup\<close> does not override \<open>canUndo()\<close>: a group answers \<open>true\<close>.\<close>

fun cmd_canUndo :: "'w CADCommand \<Rightarrow> bool" where
  "cmd_canUndo (Atomic n cu e u r) = cu"
| "cmd_canUndo (CADCommandGroup n cs) = True"

text \<open>
  \<open>CADCommandGroup::execute\<close> runs the members first to last; a member that throws
  ends the loop, the exception leaving the group's method.
\<close>

fun cmd_execute :: "'w CADCommand \<Rightarrow> 'w effect"
  and execute_members :: "'w CADCommand list \<Rightarrow> 'w effect" where
  "cmd_execute (Atomic n cu e u r) w = e w"
| "cmd_execute (CADCommandGroup n cs) w = execute_members cs w"
| "execute_members [] w = (None, w)"
| "execute_members (c # cs) w =
     (case cmd_execute c w of
        (Some ex, w') \<Rightarrow> (Some ex, w')
      | (None, w') \<Rightarrow> execute_members cs w')"

text \<open>
  \<open>CADCommandGroup::undo\<close> walks \<open>m_commands\<close> from \<open>rbegin()\<close> to \<open>rend()\<close>: of the
  members \<open>c # cs\<close> the later ones \<open>cs\<close> are undone before \<open>c\<close>.
\<close>

fun cmd_undo :: "'w CADCommand \<Rightarrow> 'w effect"
  and undo_members :: "'w CADCommand list \<Rightarrow> 'w effect" where
  "cmd_undo (Atomic n cu e u r) w = u w"
| "cmd_undo (CADCommandGroup n cs) w = undo_members cs w"
| "undo_members [] w = (None, w)"
| "undo_members (c # cs) w =
     (case undo_members cs w of
        (Some ex, w') \<Rightarrow> (Some ex, w')
      | (None, w') \<Rightarrow> cmd_undo c w')"

text \<open>\<open>CADCommandGroup::redo\<close> calls \<open>execute()\<close>.\<close>

fun cmd_redo :: "'w CADCommand \<Rightarrow> 'w effect" where
  "cmd_redo (Atomic n cu e u r) w = r w"
| "cmd_redo (CADCommandGroup n cs) w = cmd_execute (CADCommandGroup n cs) w"

text \<open>
  \<open>CADCommandGroup::addCommand\<close> takes the \<open>unique_ptr\<close> by value and appends it
  unless it is null. The open group of the engine is a name and its members.
\<close>

type_synonym 'w group = "string \<times> 'w CADCommand list"

fun addCommand :: "'w CADCommand option \<Rightarrow> 'w group \<Rightarrow> 'w group" where
  "addCommand None (n, cs) = (n, cs)"
| "addCommand (Some c) (n, cs) = (n, cs @ [c])"

fun isEmpty_group :: "'w group \<Rightarrow> bool" where
  "isEmpty_group (n, cs) = (cs = [])"

fun as_command :: "'w group \<Rightarrow> 'w CADCommand" where
  "as_command (n, cs) = CADCommandGroup n cs"

subsection \<open>The engine's state\<close>

text \<open>
  What an observer of the engine sees, in the order it happens: the Qt signals of
  \<open>CommandManager\<close> and the warnings written with \<open>qCWarning\<close> (the items streamed
  into the message). Debug output (\<open>qCDebug\<close>) is not recorded.
\<close>

datatype observation =
    commandExecuted string
  | commandFailed string string
  | undoAvailabilityChanged bool
  | redoAvailabilityChanged bool
  | historyChanged
  | groupingChanged bool
  | Warning "string list"

text \<open>
  A factory returns a \<open>unique_ptr\<close>, which may be null, or throws: a \<open>std::exception\<close>
  with its \<open>what()\<close>, or an object of another type.
\<close>

datatype 'w built = Built "'w CADCommand option" | Raised string | RaisedOther

record 'w CommandInfo =
  info_name :: string
  info_help :: string
  info_factory :: "string list \<Rightarrow> 'w built"

text \<open>
  The members of \<open>CommandManager\<close>. A \<open>QStack\<close> is a vector whose top is its last
  element: \<open>push\<close> appends, \<open>top\<close> is \<^const>\<open>last\<close>, \<open>pop\<close> is \<^const>\<open>butlast\<close>,
  \<open>removeFirst\<close> is \<^const>\<open>tl\<close>. \<open>document\<close> is the world the commands act on and
  \<open>observed\<close> the observations so far.
\<close>

record 'w CommandManager =
  m_undoStack :: "'w CADCommand list"
  m_redoStack :: "'w CADCommand list"
  m_commands :: "string \<rightharpoonup> 'w CommandInfo"
  m_aliases :: "string \<rightharpoonup> string"
  m_currentGroup :: "'w group option"
  m_recording :: bool
  m_currentMacroName :: string
  m_recordedCommands :: "string list"
  m_macros :: "string \<rightharpoonup> string list"
  m_undoLimit :: int
  m_commandEcho :: bool
  m_lastCommand :: string
  m_commandInProgress :: bool
  document :: 'w
  observed :: "observation list"

definition emit :: "observation list \<Rightarrow> 'w CommandManager \<Rightarrow> 'w CommandManager" where
  "emit os st = st\<lparr>observed := observed st @ os\<rparr>"

text \<open>
  How a call of the engine ends, with the engine in the state it had reached. It
  returns a value; or it dereferences a null \<open>unique_ptr\<close> (undefined behaviour in
  C++; no \<open>catch\<close> clause sees it); or an exception that is not a \<open>std::exception\<close>
  leaves the call for its caller, the local variables of the call destroyed.
\<close>

datatype ('r, 'w) outcome =
    Returned 'r "'w CommandManager"
  | NullDeref "'w CommandManager"
  | Escaped "'w CommandManager"

fun state_of :: "('r, 'w) outcome \<Rightarrow> 'w CommandManager" where
  "state_of (Returned r st) = st"
| "state_of (NullDeref st) = st"
| "state_of (Escaped st) = st"

subsection \<open>History\<close>

definition canUndo :: "'w CommandManager \<Rightarrow> bool" where
  "canUndo st = (m_undoStack st \<noteq> [])"

definition canRedo :: "'w CommandManager \<Rightarrow> bool" where
  "canRedo st = (m_redoStack st \<noteq> [])"

definition updateUndoRedoState :: "'w CommandManager \<Rightarrow> 'w CommandManager" where
  "updateUndoRedoState st =
     emit [undoAvailabilityChanged (canUndo st), redoAvailabilityChanged (canRedo st)] st"

text \<open>
  \<open>trimHistory\<close>: \<open>while (m_undoStack.size() > m_undoLimit) m_undoStack.removeFirst();\<close>.
  \<open>m_undoLimit\<close> is 100 from the constructor and at least 1 after \<open>setUndoLimit\<close>, so
  the loop never meets an empty stack with its condition true.
\<close>

fun trim_loop :: "int \<Rightarrow> 'a list \<Rightarrow> 'a list" where
  "trim_loop lim [] = []"
| "trim_loop lim (x # xs) =
     (if int (length (x # xs)) > lim then trim_loop lim xs else x # xs)"

definition trimHistory :: "'w CommandManager \<Rightarrow> 'w CommandManager" where
  "trimHistory st = st\<lparr>m_undoStack := trim_loop (m_undoLimit st) (m_undoStack st)\<rparr>"

definition setUndoLimit :: "int \<Rightarrow> 'w CommandManager \<Rightarrow> 'w CommandManager" where
  "setUndoLimit limit st = trimHistory (st\<lparr>m_undoLimit := max 1 limit\<rparr>)"

text \<open>
  \<open>addToHistory\<close> takes the \<open>unique_ptr\<close> by value. A null pointer and a command
  whose \<open>canUndo()\<close> is false return before anything is touched.
\<close>

definition addToHistory :: "'w CADCommand option \<Rightarrow> 'w CommandManager \<Rightarrow> 'w CommandManager" where
  "addToHistory command st =
     (case command of
        None \<Rightarrow> st
      | Some c \<Rightarrow>
          if \<not> cmd_canUndo c then st
          else
            let st1 = st\<lparr>m_redoStack := []\<rparr>;
                st2 = st1\<lparr>m_undoStack := m_undoStack st1 @ [c]\<rparr>;
                st3 = trimHistory st2;
                st4 = updateUndoRedoState st3
            in emit [historyChanged] st4)"

text \<open>
  \<open>undo()\<close> moves the top of the undo stack into the local \<open>command\<close> and pops it.
  The handler pushes the command back when its \<open>undo()\<close> throws a \<open>std::exception\<close>;
  any other exception leaves \<open>undo()\<close> with the stack popped and \<open>command\<close>
  destroyed. \<open>redo()\<close> is the same on the redo stack.
\<close>

definition undo :: "'w CommandManager \<Rightarrow> (unit, 'w) outcome" where
  "undo st =
     (if \<not> canUndo st then
        Returned () (emit [Warning [''Cannot undo: no commands in history'']] st)
      else
        (let command = last (m_undoStack st);
             st1 = st\<lparr>m_undoStack := butlast (m_undoStack st)\<rparr>
         in (case cmd_undo command (document st1) of
               (None, w') \<Rightarrow>
                 (let st2 = st1\<lparr>document := w'\<rparr>;
                      st3 = st2\<lparr>m_redoStack := m_redoStack st2 @ [command]\<rparr>;
                      st4 = updateUndoRedoState st3
                  in Returned () (emit [historyChanged] st4))
             | (Some (std_exception what), w') \<Rightarrow>
                 (let st2 = emit [Warning [''Undo failed:'', what]] (st1\<lparr>document := w'\<rparr>)
                  in Returned () (st2\<lparr>m_undoStack := m_undoStack st2 @ [command]\<rparr>))
             | (Some other_exception, w') \<Rightarrow> Escaped (st1\<lparr>document := w'\<rparr>))))"

definition redo :: "'w CommandManager \<Rightarrow> (unit, 'w) outcome" where
  "redo st =
     (if \<not> canRedo st then
        Returned () (emit [Warning [''Cannot redo: no commands in redo stack'']] st)
      else
        (let command = last (m_redoStack st);
             st1 = st\<lparr>m_redoStack := butlast (m_redoStack st)\<rparr>
         in (case cmd_redo command (document st1) of
               (None, w') \<Rightarrow>
                 (let st2 = st1\<lparr>document := w'\<rparr>;
                      st3 = st2\<lparr>m_undoStack := m_undoStack st2 @ [command]\<rparr>;
                      st4 = updateUndoRedoState st3
                  in Returned () (emit [historyChanged] st4))
             | (Some (std_exception what), w') \<Rightarrow>
                 (let st2 = emit [Warning [''Redo failed:'', what]] (st1\<lparr>document := w'\<rparr>)
                  in Returned () (st2\<lparr>m_redoStack := m_redoStack st2 @ [command]\<rparr>))
             | (Some other_exception, w') \<Rightarrow> Escaped (st1\<lparr>document := w'\<rparr>))))"

subsection \<open>Grouping\<close>

text \<open>
  \<open>endGroup\<close> hands a non-empty group to \<open>addToHistory\<close> and resets
  \<open>m_currentGroup\<close>; \<open>beginGroup\<close> ends an open group first.
\<close>

definition endGroup :: "'w CommandManager \<Rightarrow> 'w CommandManager" where
  "endGroup st =
     (case m_currentGroup st of
        None \<Rightarrow> emit [Warning [''Not in a command group'']] st
      | Some g \<Rightarrow>
          let st1 = (if \<not> isEmpty_group g then addToHistory (Some (as_command g)) st else st);
              st2 = st1\<lparr>m_currentGroup := None\<rparr>
          in emit [groupingChanged False] st2)"

definition beginGroup :: "string \<Rightarrow> 'w CommandManager \<Rightarrow> 'w CommandManager" where
  "beginGroup groupName st =
     (let st1 = (case m_currentGroup st of
                   None \<Rightarrow> st
                 | Some g \<Rightarrow>
                     endGroup (emit [Warning [''Already in a command group, ending previous group'']] st));
          st2 = st1\<lparr>m_currentGroup := Some (groupName, [])\<rparr>
      in emit [groupingChanged True] st2)"

subsection \<open>Registry and aliases\<close>

definition registerCommand ::
  "string \<Rightarrow> (string list \<Rightarrow> 'w built) \<Rightarrow> 'w CommandManager \<Rightarrow> 'w CommandManager" where
  "registerCommand name factory st =
     st\<lparr>m_commands := (m_commands st)
          (toLower name \<mapsto> \<lparr>info_name = name, info_help = [], info_factory = factory\<rparr>)\<rparr>"

definition registerBuiltinCommand ::
  "string \<Rightarrow> string \<Rightarrow> (string list \<Rightarrow> 'w built) \<Rightarrow> 'w CommandManager \<Rightarrow> 'w CommandManager" where
  "registerBuiltinCommand name help factory st =
     st\<lparr>m_commands := (m_commands st)
          (toLower name \<mapsto> \<lparr>info_name = name, info_help = help, info_factory = factory\<rparr>)\<rparr>"

definition registerAlias :: "string \<Rightarrow> string \<Rightarrow> 'w CommandManager \<Rightarrow> 'w CommandManager" where
  "registerAlias alias command st =
     st\<lparr>m_aliases := (m_aliases st)(toLower alias \<mapsto> toLower command)\<rparr>"

definition unregisterCommand :: "string \<Rightarrow> 'w CommandManager \<Rightarrow> 'w CommandManager" where
  "unregisterCommand name st = st\<lparr>m_commands := (m_commands st)(toLower name := None)\<rparr>"

definition unregisterAlias :: "string \<Rightarrow> 'w CommandManager \<Rightarrow> 'w CommandManager" where
  "unregisterAlias alias st = st\<lparr>m_aliases := (m_aliases st)(toLower alias := None)\<rparr>"

definition resolveAlias :: "string \<Rightarrow> 'w CommandManager \<Rightarrow> string" where
  "resolveAlias command st =
     (case m_aliases st (toLower command) of
        Some target \<Rightarrow> target
      | None \<Rightarrow> toLower command)"

text \<open>
  \<open>createCommand\<close> catches the \<open>std::exception\<close> a factory throws, writes a warning
  and returns a null pointer, as it does for a name that is not registered. Any other
  exception of the factory leaves \<open>createCommand\<close>.
\<close>

definition createCommand ::
  "string \<Rightarrow> string list \<Rightarrow> 'w CommandManager \<Rightarrow> ('w CADCommand option, 'w) outcome" where
  "createCommand name args st =
     (case m_commands st (toLower name) of
        Some info \<Rightarrow>
          (case info_factory info args of
             Built p \<Rightarrow> Returned p st
           | Raised what \<Rightarrow>
               Returned None
                 (emit [Warning [''Failed to create command'', name, '':'', what]] st)
           | RaisedOther \<Rightarrow> Escaped st)
      | None \<Rightarrow> Returned None st)"

text \<open>
  The constructor: the three built-in commands, whose factories return \<open>nullptr\<close>,
  and the seven built-in aliases. \<open>w\<close> is the world the engine starts in.
\<close>

definition initializeBuiltinCommands :: "'w CommandManager \<Rightarrow> 'w CommandManager" where
  "initializeBuiltinCommands st =
     (registerAlias ''p'' ''pan''
     (registerAlias ''z'' ''zoom''
     (registerAlias ''u'' ''undo''
     (registerAlias ''rect'' ''rectangle''
     (registerAlias ''rec'' ''rectangle''
     (registerAlias ''c'' ''circle''
     (registerAlias ''l'' ''line''
     (registerBuiltinCommand ''rectangle'' ''Draw a rectangle'' (\<lambda>args. Built None)
     (registerBuiltinCommand ''circle'' ''Draw a circle'' (\<lambda>args. Built None)
     (registerBuiltinCommand ''line'' ''Draw a line'' (\<lambda>args. Built None) st))))))))))"

definition new_CommandManager :: "'w \<Rightarrow> 'w CommandManager" where
  "new_CommandManager w =
     initializeBuiltinCommands
       \<lparr>m_undoStack = [], m_redoStack = [], m_commands = Map.empty, m_aliases = Map.empty,
        m_currentGroup = None, m_recording = False, m_currentMacroName = [],
        m_recordedCommands = [], m_macros = Map.empty, m_undoLimit = 100,
        m_commandEcho = True, m_lastCommand = [], m_commandInProgress = False,
        document = w, observed = []\<rparr>"

subsection \<open>Tokenizer\<close>

text \<open>
  \<open>parseCommandLine\<close>: one pass over the characters with the tokens so far, the
  token being read and the quote mode; \<open>CHR 0x22\<close> is the double quote.
\<close>

fun parse_loop :: "string \<Rightarrow> string list \<Rightarrow> string \<Rightarrow> bool \<Rightarrow> string list" where
  "parse_loop [] parts current inQuotes = (if current \<noteq> [] then parts @ [current] else parts)"
| "parse_loop (c # cs) parts current inQuotes =
     (if c = CHR 0x22 then parse_loop cs parts current (\<not> inQuotes)
      else if isSpace c \<and> \<not> inQuotes then
        (if current \<noteq> [] then parse_loop cs (parts @ [current]) [] inQuotes
         else parse_loop cs parts current inQuotes)
      else parse_loop cs parts (current @ [c]) inQuotes)"

definition parseCommandLine :: "string \<Rightarrow> string list" where
  "parseCommandLine commandLine = parse_loop commandLine [] [] False"

subsection \<open>Dispatcher\<close>

text \<open>
  \<open>std::move(p)\<close> handed to a parameter of type \<open>std::unique_ptr\<close> taken by value:
  the callee receives the pointer (the first component) and the caller's variable is
  null afterwards (the second).
\<close>

definition std_move :: "'a option \<Rightarrow> 'a option \<times> 'a option" where
  "std_move p = (p, None)"

text \<open>
  \<open>executeCommand(std::unique_ptr<CADCommand>)\<close>. After \<open>execute()\<close> has returned,
  \<open>command\<close> is moved into \<open>addCommand\<close> or into \<open>addToHistory\<close>, both of which take
  it by value; the next statement is \<open>m_lastCommand = command->name();\<close>, on the
  variable that was moved from. An exception of \<open>execute()\<close> that is not a
  \<open>std::exception\<close> leaves the call before \<open>m_commandInProgress\<close> is reset.
\<close>

definition executeCommandPtr ::
  "'w CADCommand option \<Rightarrow> 'w CommandManager \<Rightarrow> (bool, 'w) outcome" where
  "executeCommandPtr command st =
     (case command of
        None \<Rightarrow> Returned False st
      | Some c \<Rightarrow>
          (let st1 = st\<lparr>m_commandInProgress := True\<rparr>
           in (case cmd_execute c (document st1) of
                 (Some (std_exception what), w') \<Rightarrow>
                   (let st2 = st1\<lparr>document := w'\<rparr>;
                        st3 = st2\<lparr>m_commandInProgress := False\<rparr>;
                        error = ''Command execution failed: '' @ what
                    in Returned False
                         (emit [Warning [error], commandFailed (cmd_name c) error] st3))
               | (Some other_exception, w') \<Rightarrow> Escaped (st1\<lparr>document := w'\<rparr>)
               | (None, w') \<Rightarrow>
                   (let st2 = st1\<lparr>document := w'\<rparr>;
                        st3 = st2\<lparr>m_commandInProgress := False\<rparr>;
                        moved = std_move command;
                        st4 = (case m_currentGroup st3 of
                                 Some g \<Rightarrow>
                                   st3\<lparr>m_currentGroup := Some (addCommand (fst moved) g)\<rparr>
                               | None \<Rightarrow> addToHistory (fst moved) st3)
                    in (case snd moved of
                          None \<Rightarrow> NullDeref st4
                        | Some c' \<Rightarrow> Returned True (st4\<lparr>m_lastCommand := cmd_name c'\<rparr>))))))"

text \<open>
  \<open>executeCommand(const QString&)\<close> and \<open>repeatLastCommand\<close> call each other:
  \<open>repeat\<close> submits \<open>m_lastCommand\<close> as a line again, and nothing bounds the
  nesting when that line is itself dispatched to \<open>repeat\<close>. The first argument is the
  number of nested calls of \<open>executeCommand\<close> still allowed; \<open>None\<close> is the
  recursion that needs more. The \<open>catch\<close> clause around \<open>createCommand\<close> and the
  inner \<open>executeCommand\<close> has nothing to catch: both handle the \<open>std::exception\<close>s
  themselves, and the exceptions that leave them are of other types. \<open>undo()\<close>,
  \<open>redo()\<close> and \<open>repeatLastCommand()\<close> are called outside it.
\<close>

fun executeCommand :: "nat \<Rightarrow> string \<Rightarrow> 'w CommandManager \<Rightarrow> (bool, 'w) outcome option"
  and repeatLastCommand :: "nat \<Rightarrow> 'w CommandManager \<Rightarrow> (unit, 'w) outcome option" where
  "executeCommand 0 commandLine st = None"
| "executeCommand (Suc k) commandLine st =
     (if trimmed commandLine = [] then Some (Returned False st)
      else
        let st1 = (if m_commandEcho st then emit [commandExecuted commandLine] st else st);
            st2 = (if m_recording st1
                   then st1\<lparr>m_recordedCommands := m_recordedCommands st1 @ [commandLine]\<rparr>
                   else st1)
        in case parseCommandLine commandLine of
             [] \<Rightarrow> Some (Returned False st2)
           | first # args \<Rightarrow>
               let commandName = resolveAlias (toLower first) st2
               in if commandName = ''u'' \<or> commandName = ''undo'' then
                    (case undo st2 of
                       Returned u st3 \<Rightarrow> Some (Returned True st3)
                     | NullDeref st3 \<Rightarrow> Some (NullDeref st3)
                     | Escaped st3 \<Rightarrow> Some (Escaped st3))
                  else if commandName = ''redo'' then
                    (case redo st2 of
                       Returned u st3 \<Rightarrow> Some (Returned True st3)
                     | NullDeref st3 \<Rightarrow> Some (NullDeref st3)
                     | Escaped st3 \<Rightarrow> Some (Escaped st3))
                  else if commandName = ''repeat'' \<or> commandName = [] then
                    (case repeatLastCommand k st2 of
                       None \<Rightarrow> None
                     | Some (Returned u st3) \<Rightarrow> Some (Returned True st3)
                     | Some (NullDeref st3) \<Rightarrow> Some (NullDeref st3)
                     | Some (Escaped st3) \<Rightarrow> Some (Escaped st3))
                  else
                    (case createCommand commandName args st2 of
                       Returned (Some c) st3 \<Rightarrow> Some (executeCommandPtr (Some c) st3)
                     | Returned None st3 \<Rightarrow>
                         let error = ''Unknown command: '' @ commandName
                         in Some (Returned False
                              (emit [Warning [error], commandFailed commandLine error] st3))
                     | NullDeref st3 \<Rightarrow> Some (NullDeref st3)
                     | Escaped st3 \<Rightarrow> Some (Escaped st3)))"
| "repeatLastCommand k st =
     (if m_lastCommand st = [] then
        Some (Returned () (emit [Warning [''No previous command to repeat'']] st))
      else
        (case executeCommand k (m_lastCommand st) st of
           None \<Rightarrow> None
         | Some (Returned b st') \<Rightarrow> Some (Returned () st')
         | Some (NullDeref st') \<Rightarrow> Some (NullDeref st')
         | Some (Escaped st') \<Rightarrow> Some (Escaped st')))"

subsection \<open>Scripts\<close>

text \<open>
  The loop of \<open>executeScriptText\<close> over the lines, with the \<open>success\<close> flag; every
  line is submitted with the same allowance \<open>n\<close> of nested calls. An exception that
  leaves \<open>executeCommand\<close> leaves \<open>executeScriptText\<close> too, before \<open>endGroup\<close>.
\<close>

fun script_loop ::
  "nat \<Rightarrow> string list \<Rightarrow> bool \<Rightarrow> 'w CommandManager \<Rightarrow> (bool, 'w) outcome option" where
  "script_loop n [] success st = Some (Returned success st)"
| "script_loop n (line # lines) success st =
     (let trimmedLine = trimmed line
      in if trimmedLine = [] \<or> startsWith trimmedLine (CHR '';'') \<or> startsWith trimmedLine (CHR ''#'')
         then script_loop n lines success st
         else
           (case executeCommand n trimmedLine st of
              None \<Rightarrow> None
            | Some (NullDeref st') \<Rightarrow> Some (NullDeref st')
            | Some (Escaped st') \<Rightarrow> Some (Escaped st')
            | Some (Returned ok st') \<Rightarrow>
                if \<not> ok then
                  script_loop n lines False
                    (emit [Warning [''Script command failed:'', trimmedLine]] st')
                else script_loop n lines success st'))"

definition executeScriptText ::
  "nat \<Rightarrow> string \<Rightarrow> 'w CommandManager \<Rightarrow> (bool, 'w) outcome option" where
  "executeScriptText n scriptText st =
     (let lines = split_SkipEmptyParts scriptText (CHR 0x0A);
          st1 = beginGroup ''Script Execution'' st
      in case script_loop n lines True st1 of
           None \<Rightarrow> None
         | Some (NullDeref st2) \<Rightarrow> Some (NullDeref st2)
         | Some (Escaped st2) \<Rightarrow> Some (Escaped st2)
         | Some (Returned success st2) \<Rightarrow> Some (Returned success (endGroup st2)))"

subsection \<open>Notions used in the statements\<close>

text \<open>
  The state in which \<open>executeCommand\<close> tokenizes a line that is not blank: the line
  echoed when \<open>m_commandEcho\<close> is set and recorded when \<open>m_recording\<close> is set.
\<close>

definition announced :: "string \<Rightarrow> 'w CommandManager \<Rightarrow> 'w CommandManager" where
  "announced commandLine st =
     (let st1 = (if m_commandEcho st then emit [commandExecuted commandLine] st else st)
      in if m_recording st1
         then st1\<lparr>m_recordedCommands := m_recordedCommands st1 @ [commandLine]\<rparr>
         else st1)"

text \<open>
  An outcome with its return value replaced, as in \<open>repeatLastCommand(); return true;\<close>;
  the value a call returned and the state it reached.
\<close>

fun with_result :: "'r \<Rightarrow> ('q, 'w) outcome option \<Rightarrow> ('r, 'w) outcome option" where
  "with_result r None = None"
| "with_result r (Some (Returned q st)) = Some (Returned r st)"
| "with_result r (Some (NullDeref st)) = Some (NullDeref st)"
| "with_result r (Some (Escaped st)) = Some (Escaped st)"

fun returned :: "('r, 'w) outcome option \<Rightarrow> 'r option" where
  "returned None = None"
| "returned (Some (Returned r st)) = Some r"
| "returned (Some (NullDeref st)) = None"
| "returned (Some (Escaped st)) = None"

fun reached :: "('r, 'w) outcome option \<Rightarrow> 'w CommandManager option" where
  "reached None = None"
| "reached (Some out) = Some (state_of out)"

text \<open>
  A line that reaches \<open>executeCommand(m_lastCommand)\<close> inside \<open>repeatLastCommand\<close>:
  it is dispatched to \<open>repeat\<close> and there is a last command.
\<close>

definition resubmits :: "string \<Rightarrow> 'w CommandManager \<Rightarrow> bool" where
  "resubmits commandLine st =
     (trimmed commandLine \<noteq> [] \<and> m_lastCommand st \<noteq> [] \<and>
      (case parseCommandLine commandLine of
         [] \<Rightarrow> False
       | first # args \<Rightarrow>
           (let commandName = resolveAlias (toLower first) st
            in commandName \<noteq> ''u'' \<and> commandName \<noteq> ''undo'' \<and> commandName \<noteq> ''redo''
               \<and> (commandName = ''repeat'' \<or> commandName = []))))"

text \<open>
  The Qt signals among the observations: what connected observers receive, the
  warnings of the log left out.
\<close>

fun is_signal :: "observation \<Rightarrow> bool" where
  "is_signal (Warning ws) = False"
| "is_signal ob = True"

definition signals :: "observation list \<Rightarrow> observation list" where
  "signals obs = filter is_signal obs"

text \<open>
  Every entry of the undo stack and of the redo stack answers \<open>canUndo()\<close> with true.
\<close>

definition history_undoable :: "'w CommandManager \<Rightarrow> bool" where
  "history_undoable st =
     (list_all cmd_canUndo (m_undoStack st) \<and> list_all cmd_canUndo (m_redoStack st))"

text \<open>
  Whether a call ended in the null dereference, and one call after another in a
  caller that catches nothing: nothing runs after a call that ended in the null
  dereference or that an exception left.
\<close>

fun faulted :: "('r, 'w) outcome \<Rightarrow> bool" where
  "faulted (Returned r st) = False"
| "faulted (NullDeref st) = True"
| "faulted (Escaped st) = False"

fun and_then ::
  "('r, 'w) outcome \<Rightarrow> ('w CommandManager \<Rightarrow> ('q, 'w) outcome) \<Rightarrow> ('q, 'w) outcome" where
  "and_then (Returned r st) f = f st"
| "and_then (NullDeref st) f = NullDeref st"
| "and_then (Escaped st) f = Escaped st"

text \<open>
  Whether an exception left the call, and a property of the state a call ended in:
  \<open>P\<close> where the engine lives on (the call returned, or an exception left it),
  \<open>N\<close> at the null dereference.
\<close>

fun escaped :: "('r, 'w) outcome \<Rightarrow> bool" where
  "escaped (Returned r st) = False"
| "escaped (NullDeref st) = False"
| "escaped (Escaped st) = True"

fun ends_in ::
  "('w CommandManager \<Rightarrow> bool) \<Rightarrow> ('w CommandManager \<Rightarrow> bool) \<Rightarrow> ('r, 'w) outcome \<Rightarrow> bool" where
  "ends_in P N (Returned r st) = P st"
| "ends_in P N (NullDeref st) = N st"
| "ends_in P N (Escaped st) = P st"

text \<open>
  An engine in which nothing has been executed to its end: both stacks empty, no
  last command, and no member in the open group, if there is one.
\<close>

definition untouched :: "'w CommandManager \<Rightarrow> bool" where
  "untouched st =
     (m_undoStack st = [] \<and> m_redoStack st = [] \<and> m_lastCommand st = []
      \<and> (case m_currentGroup st of None \<Rightarrow> True | Some g \<Rightarrow> isEmpty_group g))"

text \<open>
  The lines of a script as the specification words them: the text split at newlines,
  each line trimmed, the blank lines and the lines beginning with \<open>;\<close> or \<open>#\<close> left
  out. \<open>submit_each\<close> submits lines one after the other, come what may of their
  results (a line that fails is reported with a warning), and collects the results.
\<close>

definition script_lines :: "string \<Rightarrow> string list" where
  "script_lines scriptText =
     filter (\<lambda>t. \<not> (t = [] \<or> startsWith t (CHR '';'') \<or> startsWith t (CHR ''#'')))
       (map trimmed (split_SkipEmptyParts scriptText (CHR 0x0A)))"

fun submit_each ::
  "nat \<Rightarrow> string list \<Rightarrow> 'w CommandManager \<Rightarrow> (bool list, 'w) outcome option" where
  "submit_each n [] st = Some (Returned [] st)"
| "submit_each n (l # ls) st =
     (case executeCommand n l st of
        None \<Rightarrow> None
      | Some (NullDeref s) \<Rightarrow> Some (NullDeref s)
      | Some (Escaped s) \<Rightarrow> Some (Escaped s)
      | Some (Returned ok s) \<Rightarrow>
          (case submit_each n ls
                  (if ok then s else emit [Warning [''Script command failed:'', l]] s) of
             None \<Rightarrow> None
           | Some (NullDeref s') \<Rightarrow> Some (NullDeref s')
           | Some (Escaped s') \<Rightarrow> Some (Escaped s')
           | Some (Returned oks s') \<Rightarrow> Some (Returned (ok # oks) s')))"

subsection \<open>Example commands and states\<close>

text \<open>
  For concrete runs the world is a journal, a list of strings: a method that returns
  appends its entry, a method that throws leaves the journal alone.
\<close>

definition journal :: "string \<Rightarrow> string list effect" where
  "journal entry w = (None, w @ [entry])"



definition cmd_a :: "string list CADCommand" where
  "cmd_a = Atomic ''a'' True (journal ''execute a'') (journal ''undo a'') (journal ''redo a'')"

definition cmd_b :: "string list CADCommand" where
  "cmd_b = Atomic ''b'' True (journal ''execute b'') (journal ''undo b'') (journal ''redo b'')"




definition cmd_box :: "string list CADCommand" where
  "cmd_box =
     Atomic ''box'' True (journal ''execute box'') (journal ''undo box'') (journal ''redo box'')"

definition fresh :: "string list CommandManager" where
  "fresh = new_CommandManager []"



text \<open>New engines after a registration.\<close>

definition st_box :: "string list CommandManager" where
  "st_box = registerCommand ''box'' (\<lambda>args. Built (Some cmd_box)) fresh"

definition st_raising :: "string list CommandManager" where
  "st_raising = registerCommand ''box'' (\<lambda>args. Raised ''no box today'') fresh"

definition st_alias :: "string list CommandManager" where
  "st_alias = registerAlias ''undo'' ''redo'' fresh"

definition script_box_undo :: string where
  "script_box_undo = ''box'' @ [CHR 0x0A] @ ''undo''"

text \<open>Runs of a new engine, call after call.\<close>

definition group_scenario :: "(unit, string list) outcome" where
  "group_scenario =
     and_then
       (and_then
          (and_then (Returned () (beginGroup ''G'' fresh)) (executeCommandPtr (Some cmd_a)))
          (executeCommandPtr (Some cmd_b)))
       (\<lambda>st. Returned () (endGroup st))"


section \<open>Properties\<close>

subsection \<open>Observations and stacks under \<open>emit\<close>\<close>

lemma observed_emit: "observed (emit os st) = observed st @ os"
  by (simp add: emit_def)

lemma stacks_emit:
  "m_undoStack (emit os st) = m_undoStack st" "m_redoStack (emit os st) = m_redoStack st"
  by (simp_all add: emit_def)

subsection \<open>The dispatcher unfolded\<close>

lemma announced_fields [simp]:
  "m_aliases (announced l st) = m_aliases st"
  "m_lastCommand (announced l st) = m_lastCommand st"
  "m_commands (announced l st) = m_commands st"
  "m_undoStack (announced l st) = m_undoStack st"
  "m_redoStack (announced l st) = m_redoStack st"
  "m_currentGroup (announced l st) = m_currentGroup st"
  "document (announced l st) = document st"
  "m_commandEcho (announced l st) = m_commandEcho st"
  "m_recording (announced l st) = m_recording st"
  "m_undoLimit (announced l st) = m_undoLimit st"
  by (simp_all add: announced_def emit_def Let_def)

lemma observed_announced:
  "observed (announced l st) = observed st @ (if m_commandEcho st then [commandExecuted l] else [])"
  by (simp add: announced_def emit_def Let_def)

lemma resolveAlias_announced [simp]: "resolveAlias n (announced l st) = resolveAlias n st"
  by (simp add: resolveAlias_def)

lemma resubmits_announced [simp]: "resubmits l' (announced l st) = resubmits l' st"
  by (simp add: resubmits_def split: list.splits)

lemma case_with_result:
  "(case x of None \<Rightarrow> None
    | Some (Returned u st3) \<Rightarrow> Some (Returned r st3)
    | Some (NullDeref st3) \<Rightarrow> Some (NullDeref st3)
    | Some (Escaped st3) \<Rightarrow> Some (Escaped st3)) = with_result r x"
proof (cases x)
  case (Some out)
  then show ?thesis by (cases out) auto
qed auto

lemma case_with_result_Some:
  "(case y of Returned u st3 \<Rightarrow> Some (Returned r st3)
    | NullDeref st3 \<Rightarrow> Some (NullDeref st3)
    | Escaped st3 \<Rightarrow> Some (Escaped st3)) = with_result r (Some y)"
  by (cases y) auto

lemma repeatLastCommand_eq:
  "repeatLastCommand k st =
     (if m_lastCommand st = [] then
        Some (Returned () (emit [Warning [''No previous command to repeat'']] st))
      else with_result () (executeCommand k (m_lastCommand st) st))"
  by (simp add: case_with_result)

lemma with_result_with_result [simp]: "with_result r (with_result q x) = with_result r x"
proof (cases x)
  case (Some out)
  then show ?thesis by (cases out) auto
qed auto

lemma state_of_with_result:
  "with_result r x = Some out \<Longrightarrow>
     \<exists>out'. x = Some out' \<and> state_of out = state_of out' \<and> faulted out = faulted out'
           \<and> escaped out = escaped out'"
proof (cases x)
  case (Some o')
  assume "with_result r x = Some out"
  with Some show ?thesis by (cases o') auto
qed auto

lemma ends_in_with_result:
  "with_result r (Some out') = Some out \<Longrightarrow> ends_in P N out = ends_in P N out'"
  by (cases out') auto

text \<open>The dispatcher on a line with at least one token, by the resolved name.\<close>

lemma executeCommand_Suc:
  assumes "trimmed l \<noteq> []" and "parseCommandLine l = first # args"
  shows "executeCommand (Suc k) l st =
     (let st2 = announced l st; commandName = resolveAlias (toLower first) st
      in if commandName = ''u'' \<or> commandName = ''undo'' then with_result True (Some (undo st2))
         else if commandName = ''redo'' then with_result True (Some (redo st2))
         else if commandName = ''repeat'' \<or> commandName = [] then
           (if m_lastCommand st = [] then
              Some (Returned True (emit [Warning [''No previous command to repeat'']] st2))
            else with_result True (executeCommand k (m_lastCommand st) st2))
         else
           (case createCommand commandName args st2 of
              Returned (Some c) st3 \<Rightarrow> Some (executeCommandPtr (Some c) st3)
            | Returned None st3 \<Rightarrow>
                Some (Returned False
                  (emit [Warning [''Unknown command: '' @ commandName],
                         commandFailed l (''Unknown command: '' @ commandName)] st3))
            | NullDeref st3 \<Rightarrow> Some (NullDeref st3)
            | Escaped st3 \<Rightarrow> Some (Escaped st3)))"
proof -
  have a: "(if m_recording (if m_commandEcho st then emit [commandExecuted l] st else st)
            then (if m_commandEcho st then emit [commandExecuted l] st else st)
                 \<lparr>m_recordedCommands :=
                    m_recordedCommands (if m_commandEcho st then emit [commandExecuted l] st else st) @ [l]\<rparr>
            else (if m_commandEcho st then emit [commandExecuted l] st else st)) = announced l st"
    by (simp add: announced_def Let_def)
  show ?thesis
    using assms
    apply (simp only: executeCommand.simps Let_def a if_False list.case repeatLastCommand_eq
        case_with_result case_with_result_Some)
    apply (simp add: if_distrib [of "with_result True"]
        split: outcome.splits option.splits)
    done
qed

lemma executeCommand_no_tokens:
  "trimmed l \<noteq> [] \<Longrightarrow> parseCommandLine l = [] \<Longrightarrow>
     executeCommand (Suc k) l st = Some (Returned False (announced l st))"
  by (simp add: announced_def Let_def)

lemma executeCommand_blank:
  "trimmed l = [] \<Longrightarrow> executeCommand (Suc k) l st = Some (Returned False st)"
  by simp

declare executeCommand.simps(2) [simp del] repeatLastCommand.simps [simp del]

subsection \<open>What the dispatcher preserves\<close>

text \<open>
  A property \<open>P\<close> of the engine that echo, recording, warnings, \<open>undo\<close>, \<open>redo\<close>,
  \<open>createCommand\<close> and the execution of a command keep (with \<open>N\<close> at the null
  dereference) is kept by \<open>executeCommand\<close> on a line, and by the loop of a script.
\<close>

lemma executeCommand_preserves:
  assumes an: "\<And>l st. P st \<Longrightarrow> P (announced l st)"
    and em: "\<And>os st. P st \<Longrightarrow> P (emit os st)"
    and un: "\<And>st. P st \<Longrightarrow> ends_in P N (undo st)"
    and re: "\<And>st. P st \<Longrightarrow> ends_in P N (redo st)"
    and cr: "\<And>n a st. P st \<Longrightarrow> ends_in P N (createCommand n a st)"
    and ex: "\<And>p st. P st \<Longrightarrow> ends_in P N (executeCommandPtr p st)"
  shows "(if trimmed l = [] then P st else P (announced l st)) \<Longrightarrow>
           executeCommand k l st = Some out \<Longrightarrow> ends_in P N out"
proof (induction k arbitrary: l st out)
  case 0
  then show ?case by simp
next
  case (Suc k)
  show ?case
  proof (cases "trimmed l = []")
    case True
    with Suc.prems show ?thesis by (auto simp: executeCommand_blank)
  next
    case ne: False
    with Suc.prems(1) have pa: "P (announced l st)" by simp
    show ?thesis
    proof (cases "parseCommandLine l")
      case Nil
      with Suc.prems(2) ne pa show ?thesis by (auto simp: executeCommand_no_tokens)
    next
      case (Cons first args)
      let ?nm = "resolveAlias (toLower first) st"
      let ?st2 = "announced l st"
      note eq = Suc.prems(2) [unfolded executeCommand_Suc [OF ne Cons] Let_def]
      consider (u) "?nm = ''u'' \<or> ?nm = ''undo''"
        | (r) "\<not> (?nm = ''u'' \<or> ?nm = ''undo'')" "?nm = ''redo''"
        | (rep) "\<not> (?nm = ''u'' \<or> ?nm = ''undo'')" "?nm \<noteq> ''redo''"
                "?nm = ''repeat'' \<or> ?nm = []"
        | (reg) "\<not> (?nm = ''u'' \<or> ?nm = ''undo'')" "?nm \<noteq> ''redo''"
                "\<not> (?nm = ''repeat'' \<or> ?nm = [])"
        by blast
      then show ?thesis
      proof cases
        case u
        with eq have "with_result True (Some (undo ?st2)) = Some out" by auto
        from ends_in_with_result [OF this] un [OF pa] show ?thesis by simp
      next
        case r
        with eq have "with_result True (Some (redo ?st2)) = Some out" by auto
        from ends_in_with_result [OF this] re [OF pa] show ?thesis by simp
      next
        case rep
        show ?thesis
        proof (cases "m_lastCommand st = []")
          case True
          with eq rep have
            "out = Returned True (emit [Warning [''No previous command to repeat'']] ?st2)"
            by auto
          then show ?thesis using em [OF pa] by simp
        next
          case False
          with eq rep have w:
            "with_result True (executeCommand k (m_lastCommand st) ?st2) = Some out"
            by auto
          then obtain out' where
            o: "executeCommand k (m_lastCommand st) ?st2 = Some out'"
            by (cases "executeCommand k (m_lastCommand st) ?st2") auto
          have "if trimmed (m_lastCommand st) = [] then P ?st2
                else P (announced (m_lastCommand st) ?st2)"
            using pa an by simp
          from Suc.IH [OF this o] have "ends_in P N out'" .
          with ends_in_with_result [OF w [unfolded o]] show ?thesis by simp
        qed
      next
        case reg
        from cr [OF pa] have pc: "ends_in P N (createCommand ?nm args ?st2)" .
        show ?thesis
        proof (cases "createCommand ?nm args ?st2")
          case (Returned p st3)
          with pc have p3: "P st3" by simp
          show ?thesis
          proof (cases p)
            case None
            with eq reg Returned have
              "out = Returned False
                 (emit [Warning [''Unknown command: '' @ ?nm],
                        commandFailed l (''Unknown command: '' @ ?nm)] st3)"
              by auto
            then show ?thesis using em [OF p3] by simp
          next
            case (Some cmd)
            with eq reg Returned have "out = executeCommandPtr (Some cmd) st3" by auto
            then show ?thesis using ex [OF p3] by simp
          qed
        next
          case (NullDeref st3)
          with eq reg pc show ?thesis by auto
        next
          case (Escaped st3)
          with eq reg pc show ?thesis by auto
        qed
      qed
    qed
  qed
qed

lemma script_loop_preserves:
  assumes ex: "\<And>l st out. P st \<Longrightarrow> executeCommand n l st = Some out \<Longrightarrow> ends_in P N out"
    and em: "\<And>os st. P st \<Longrightarrow> P (emit os st)"
  shows "P st \<Longrightarrow> script_loop n lines success st = Some out \<Longrightarrow> ends_in P N out"
proof (induction lines arbitrary: success st)
  case Nil
  then show ?case by auto
next
  case (Cons line lines)
  let ?t = "trimmed line"
  show ?case
  proof (cases "?t = [] \<or> startsWith ?t (CHR '';'') \<or> startsWith ?t (CHR ''#'')")
    case True
    with Cons.prems(2) have "script_loop n lines success st = Some out" by (simp add: Let_def)
    from Cons.IH [OF Cons.prems(1) this] show ?thesis .
  next
    case False
    with Cons.prems(2) obtain o1 where o1: "executeCommand n ?t st = Some o1"
      by (auto simp: Let_def split: option.splits)
    from ex [OF Cons.prems(1) o1] have p1: "ends_in P N o1" .
    show ?thesis
    proof (cases o1)
      case (NullDeref s)
      with False o1 Cons.prems(2) p1 show ?thesis by (auto simp: Let_def)
    next
      case (Escaped s)
      with False o1 Cons.prems(2) p1 show ?thesis by (auto simp: Let_def)
    next
      case (Returned ok s)
      show ?thesis
      proof (cases ok)
        case True
        with Returned False o1 Cons.prems(2)
        have "script_loop n lines success s = Some out" by (simp add: Let_def)
        from Cons.IH [OF _ this] p1 Returned show ?thesis by simp
      next
        case nok: False
        with Returned False o1 Cons.prems(2)
        have "script_loop n lines False
                (emit [Warning [''Script command failed:'', ?t]] s) = Some out"
          by (simp add: Let_def)
        from Cons.IH [OF _ this] em p1 Returned show ?thesis by simp
      qed
    qed
  qed
qed

subsection \<open>Observations are only ever appended\<close>

lemma prefix_emit: "prefix xs (observed st) \<Longrightarrow> prefix xs (observed (emit os st))"
  by (simp add: emit_def prefix_def) auto

lemma prefix_announced: "prefix xs (observed st) \<Longrightarrow> prefix xs (observed (announced l st))"
  by (auto simp: observed_announced prefix_def)

lemma prefix_undo:
  "prefix xs (observed st) \<Longrightarrow> prefix xs (observed (state_of (undo st)))"
  by (auto simp: undo_def Let_def emit_def updateUndoRedoState_def prefix_def
      split: prod.splits option.splits thrown.splits)

lemma prefix_redo:
  "prefix xs (observed st) \<Longrightarrow> prefix xs (observed (state_of (redo st)))"
  by (auto simp: redo_def Let_def emit_def updateUndoRedoState_def prefix_def
      split: prod.splits option.splits thrown.splits)

lemma prefix_addToHistory: "prefix xs (observed st) \<Longrightarrow> prefix xs (observed (addToHistory p st))"
  by (auto simp: addToHistory_def Let_def emit_def updateUndoRedoState_def trimHistory_def prefix_def
      split: option.splits)

lemma prefix_executeCommandPtr:
  "prefix xs (observed st) \<Longrightarrow> prefix xs (observed (state_of (executeCommandPtr p st)))"
  by (auto simp: executeCommandPtr_def Let_def std_move_def
      split: option.splits prod.splits thrown.splits intro!: prefix_emit prefix_addToHistory)

lemma prefix_createCommand:
  "prefix xs (observed st) \<Longrightarrow> prefix xs (observed (state_of (createCommand n a st)))"
  by (auto simp: createCommand_def split: option.splits built.splits intro!: prefix_emit)

lemma ends_in_state_of: "ends_in P P out = P (state_of out)"
  by (cases out) auto

lemma prefix_executeCommand:
  assumes "executeCommand k l st = Some out"
    and "prefix xs (observed st @ (if trimmed l \<noteq> [] \<and> m_commandEcho st then [commandExecuted l] else []))"
  shows "prefix xs (observed (state_of out))"
proof -
  let ?P = "\<lambda>s. prefix xs (observed s)"
  have start: "if trimmed l = [] then ?P st else ?P (announced l st)"
    using assms(2) by (auto simp: observed_announced intro: prefix_order.trans)
  have "ends_in ?P ?P out"
    by (rule executeCommand_preserves [where P = ?P and N = ?P, OF _ _ _ _ _ _ start assms(1)])
       (simp_all add: ends_in_state_of prefix_announced prefix_emit prefix_undo prefix_redo
          prefix_createCommand prefix_executeCommandPtr)
  then show ?thesis by (simp add: ends_in_state_of)
qed

subsection \<open>When the dispatcher returns\<close>

lemma executeCommand_returns_direct:
  assumes "\<not> resubmits l st"
  shows "\<exists>out. executeCommand (Suc k) l st = Some out"
proof (cases "trimmed l = []")
  case True
  then show ?thesis by (simp add: executeCommand_blank)
next
  case ne: False
  show ?thesis
  proof (cases "parseCommandLine l")
    case Nil
    with ne show ?thesis by (simp add: executeCommand_no_tokens)
  next
    case (Cons first args)
    have w: "\<exists>out. with_result True (Some y) = Some out" for y :: "(unit, 'a) outcome"
      by (cases y) auto
    from assms ne Cons show ?thesis
      unfolding executeCommand_Suc [OF ne Cons]
      using w by (auto simp: resubmits_def Let_def split: outcome.splits option.splits)
  qed
qed

lemma executeCommand_returns_once:
  assumes "resubmits l st" and "\<not> resubmits (m_lastCommand st) st"
  shows "\<exists>out. executeCommand (Suc (Suc k)) l st = Some out"
proof -
  from assms(1) obtain first args where
    ne: "trimmed l \<noteq> []" and p: "parseCommandLine l = first # args"
    by (auto simp: resubmits_def split: list.splits)
  from assms(2) have "\<not> resubmits (m_lastCommand st) (announced l st)" by simp
  from executeCommand_returns_direct [OF this, of k]
  obtain out where o: "executeCommand (Suc k) (m_lastCommand st) (announced l st) = Some out"
    by blast
  have "\<exists>out'. with_result True (Some out) = Some out'" by (cases out) auto
  with assms(1) p o show ?thesis
    unfolding executeCommand_Suc [OF ne p]
    by (auto simp: resubmits_def Let_def)
qed

lemma executeCommand_endless:
  "resubmits l st \<Longrightarrow> resubmits (m_lastCommand st) st \<Longrightarrow> executeCommand k l st = None"
proof (induction k arbitrary: l st)
  case 0
  then show ?case by simp
next
  case (Suc k)
  from Suc.prems(1) obtain first args where
    ne: "trimmed l \<noteq> []" and p: "parseCommandLine l = first # args"
    by (auto simp: resubmits_def split: list.splits)
  have "executeCommand k (m_lastCommand st) (announced l st) = None"
    by (rule Suc.IH) (use Suc.prems in simp_all)
  with Suc.prems(1) p show ?case
    unfolding executeCommand_Suc [OF ne p]
    by (auto simp: resubmits_def Let_def)
qed

subsection \<open>A failed undo or redo and the two stacks\<close>




subsection \<open>The echo comes first\<close>

text \<open>
  C10. For every call of \<open>executeCommand\<close> with a line that is not whitespace-only and
  with command echo enabled, \<open>commandExecuted\<close> is emitted with the raw line, verbatim,
  before tokenization, alias resolution and execution: it is the first observation
  the call adds, whatever the call does afterwards (no tokens, an unknown command, a
  command that fails). The call returns unless the line and the last command are both
  dispatched to \<open>repeat\<close>.
\<close>

theorem echo_before_dispatch:
  assumes "trimmed commandLine \<noteq> []" and "m_commandEcho st"
  shows "(\<forall>k out. executeCommand k commandLine st = Some out \<longrightarrow>
            (\<exists>rest. observed (state_of out) = observed st @ commandExecuted commandLine # rest))
         \<and> (\<not> (resubmits commandLine st \<and> resubmits (m_lastCommand st) st) \<longrightarrow>
            (\<exists>out. executeCommand (Suc (Suc k)) commandLine st = Some out))"
proof (intro conjI allI impI)
  fix k out
  assume "executeCommand k commandLine st = Some out"
  from prefix_executeCommand [OF this, of "observed st @ [commandExecuted commandLine]"] assms
  show "\<exists>rest. observed (state_of out) = observed st @ commandExecuted commandLine # rest"
    by (auto simp: prefix_def)
next
  assume "\<not> (resubmits commandLine st \<and> resubmits (m_lastCommand st) st)"
  then show "\<exists>out. executeCommand (Suc (Suc k)) commandLine st = Some out"
    using executeCommand_returns_direct [of commandLine st "Suc k"]
      executeCommand_returns_once [of commandLine st k]
    by blast
qed

theorem echo_before_dispatch_witness:
  "trimmed ''LINE 0 0'' \<noteq> [] \<and> m_commandEcho fresh
   \<and> (\<exists>rest. map_option observed (reached (executeCommand 2 ''LINE 0 0'' fresh)) =
         Some (observed fresh @ commandExecuted ''LINE 0 0'' # rest))
   \<and> map_option observed (reached (executeCommand 2 ''LINE 0 0'' fresh)) =
       Some [commandExecuted ''LINE 0 0'', Warning [''Unknown command: line''],
             commandFailed ''LINE 0 0'' ''Unknown command: line'']"
proof -
  have h1: "trimmed ''LINE 0 0'' \<noteq> []" by code_simp
  have h2: "m_commandEcho fresh" by code_simp
  have r: "\<not> (resubmits ''LINE 0 0'' fresh \<and> resubmits (m_lastCommand fresh) fresh)" by code_simp
  have e: "map_option observed (reached (executeCommand 2 ''LINE 0 0'' fresh)) =
       Some [commandExecuted ''LINE 0 0'', Warning [''Unknown command: line''],
             commandFailed ''LINE 0 0'' ''Unknown command: line'']"
    by code_simp
  from echo_before_dispatch [OF h1 h2, of 0] r
  obtain out where o: "executeCommand 2 ''LINE 0 0'' fresh = Some out"
    and "\<exists>rest. observed (state_of out) = observed fresh @ commandExecuted ''LINE 0 0'' # rest"
    by (auto simp: numeral_2_eq_2)
  then show ?thesis using h1 h2 e by auto
qed

subsection \<open>Undo with nothing to undo\<close>

lemma toLower_char_idem: "toLower_char (toLower_char c) = toLower_char c"
  by (auto simp: toLower_char_def Let_def)

lemma toLower_idem [simp]: "toLower (toLower s) = toLower s"
  by (simp add: toLower_def toLower_char_idem)

text \<open>
  C5, as the code has it. Submitting a line that is dispatched to undo (its resolved
  name is \<open>u\<close> or \<open>undo\<close>) while the undo stack is empty returns true. Neither stack
  and not the document change, and no history, availability or failure signal is
  emitted: what is observed is the echo \<open>commandExecuted\<close> of the line, when echo is
  enabled, and the warning that there is nothing to undo.
\<close>

theorem undo_with_empty_history:
  assumes "trimmed commandLine \<noteq> []" and "parseCommandLine commandLine = first # args"
    and "resolveAlias (toLower first) st = ''u'' \<or> resolveAlias (toLower first) st = ''undo''"
    and "m_undoStack st = []"
  shows "(let st' = emit [Warning [''Cannot undo: no commands in history'']]
                      (announced commandLine st)
          in executeCommand (Suc k) commandLine st = Some (Returned True st')
             \<and> observed st' =
                 observed st @ (if m_commandEcho st then [commandExecuted commandLine] else [])
                 @ [Warning [''Cannot undo: no commands in history'']]
             \<and> m_undoStack st' = [] \<and> m_redoStack st' = m_redoStack st
             \<and> document st' = document st \<and> m_lastCommand st' = m_lastCommand st)"
proof -
  have "undo (announced commandLine st) =
          Returned ()
            (emit [Warning [''Cannot undo: no commands in history'']] (announced commandLine st))"
    using assms(4) by (simp add: undo_def canUndo_def)
  with assms(3) show ?thesis
    unfolding executeCommand_Suc [OF assms(1,2)]
    by (auto simp: Let_def observed_emit observed_announced stacks_emit assms(4) emit_def)
qed

theorem undo_with_empty_history_witness:
  "trimmed ''undo'' \<noteq> [] \<and> parseCommandLine ''undo'' = ''undo'' # []
   \<and> resolveAlias (toLower ''undo'') fresh = ''undo'' \<and> m_undoStack fresh = []
   \<and> returned (executeCommand (Suc 0) ''undo'' fresh) = Some True
   \<and> map_option observed (reached (executeCommand (Suc 0) ''undo'' fresh)) =
       Some [commandExecuted ''undo'', Warning [''Cannot undo: no commands in history'']]"
proof -
  have h1: "trimmed ''undo'' \<noteq> []" by code_simp
  have h2: "parseCommandLine ''undo'' = ''undo'' # []" by code_simp
  have h3: "resolveAlias (toLower ''undo'') fresh = ''undo''" by code_simp
  have h4: "m_undoStack fresh = []" by code_simp
  have e: "m_commandEcho fresh" "observed fresh = []" by code_simp+
  from undo_with_empty_history [OF h1 h2 _ h4, of 0] h3 e h1 h2 h4
  show ?thesis by (simp add: Let_def)
qed

text \<open>
  C5 as stated fails: on a new engine, whose undo stack is empty, the line \<open>undo\<close>
  returns true, not false, and the \<open>commandExecuted\<close> signal is emitted.
\<close>

theorem undo_with_empty_history_returns_true:
  "m_undoStack fresh = []
   \<and> returned (executeCommand (Suc 0) ''undo'' fresh) = Some True
   \<and> map_option (signals \<circ> observed) (reached (executeCommand (Suc 0) ''undo'' fresh)) =
       Some [commandExecuted ''undo'']"
  by code_simp

subsection \<open>Aliases are resolved before the reserved names are checked\<close>

lemma resolveAlias_eq:
  "resolveAlias (toLower first) st =
     (case m_aliases st (toLower first) of Some target \<Rightarrow> target | None \<Rightarrow> toLower first)"
  by (simp add: resolveAlias_def split: option.splits)

text \<open>
  C6, as the code has it. For every submitted line with at least one token, the
  lowercased first token is first resolved through the alias table, in one hop (the
  target of its entry, or the token itself when it has none). The reserved names are
  then checked on the resolved name, before the registry is consulted: \<open>u\<close> and
  \<open>undo\<close> invoke undo, \<open>redo\<close> invokes redo, \<open>repeat\<close> and the empty name repeat the
  last command, and every other name goes to the registry.
\<close>

theorem alias_resolved_before_reserved_names:
  assumes "trimmed commandLine \<noteq> []" and "parseCommandLine commandLine = first # args"
  shows "(let nm = (case m_aliases st (toLower first) of
                      Some target \<Rightarrow> target
                    | None \<Rightarrow> toLower first);
              st2 = announced commandLine st
          in resolveAlias (toLower first) st = nm
             \<and> (nm = ''u'' \<or> nm = ''undo'' \<longrightarrow>
                  executeCommand (Suc k) commandLine st = with_result True (Some (undo st2)))
             \<and> (nm = ''redo'' \<longrightarrow>
                  executeCommand (Suc k) commandLine st = with_result True (Some (redo st2)))
             \<and> (nm = ''repeat'' \<or> nm = [] \<longrightarrow>
                  executeCommand (Suc k) commandLine st =
                    with_result True (repeatLastCommand k st2))
             \<and> (nm \<notin> {''u'', ''undo'', ''redo'', ''repeat'', []} \<longrightarrow>
                  executeCommand (Suc k) commandLine st =
                    (case createCommand nm args st2 of
                       Returned (Some c) st3 \<Rightarrow> Some (executeCommandPtr (Some c) st3)
                     | Returned None st3 \<Rightarrow>
                         Some (Returned False
                           (emit [Warning [''Unknown command: '' @ nm],
                                  commandFailed commandLine (''Unknown command: '' @ nm)]
                              st3))
                     | NullDeref st3 \<Rightarrow> Some (NullDeref st3)
                     | Escaped st3 \<Rightarrow> Some (Escaped st3))))"
  unfolding executeCommand_Suc [OF assms] resolveAlias_eq [symmetric] Let_def
  by (auto simp: repeatLastCommand_eq)

theorem alias_resolved_before_reserved_names_witness:
  "trimmed ''undo'' \<noteq> [] \<and> parseCommandLine ''undo'' = ''undo'' # []
   \<and> m_aliases st_alias (toLower ''undo'') = Some ''redo''
   \<and> executeCommand (Suc 0) ''undo'' st_alias =
       with_result True (Some (redo (announced ''undo'' st_alias)))
   \<and> returned (executeCommand (Suc 0) ''undo'' st_alias) = Some True
   \<and> map_option observed (reached (executeCommand (Suc 0) ''undo'' st_alias)) =
       Some [commandExecuted ''undo'', Warning [''Cannot redo: no commands in redo stack'']]"
proof -
  have h1: "trimmed ''undo'' \<noteq> []" by code_simp
  have h2: "parseCommandLine ''undo'' = ''undo'' # []" by code_simp
  have a: "m_aliases st_alias (toLower ''undo'') = Some ''redo''" by code_simp
  have e: "returned (executeCommand (Suc 0) ''undo'' st_alias) = Some True"
    "map_option observed (reached (executeCommand (Suc 0) ''undo'' st_alias)) =
       Some [commandExecuted ''undo'', Warning [''Cannot redo: no commands in redo stack'']]"
    by code_simp+
  from alias_resolved_before_reserved_names [OF h1 h2, of st_alias 0] a h1 h2 e
  show ?thesis by (simp add: Let_def)
qed

text \<open>
  C6 as stated fails: registering an alias changes how a line is treated. On a new
  engine the line \<open>undo\<close> is treated as undo; once \<open>undo\<close> is registered as an alias
  of \<open>redo\<close> it is treated as redo. The line \<open>again\<close> is an unknown command; once
  \<open>again\<close> is registered as an alias of \<open>undo\<close> it is treated as undo.
\<close>

theorem alias_changes_reserved_dispatch:
  "map_option observed (reached (executeCommand (Suc 0) ''undo'' fresh)) =
     Some [commandExecuted ''undo'', Warning [''Cannot undo: no commands in history'']]
   \<and> map_option observed
        (reached (executeCommand (Suc 0) ''undo'' (registerAlias ''undo'' ''redo'' fresh))) =
     Some [commandExecuted ''undo'', Warning [''Cannot redo: no commands in redo stack'']]
   \<and> map_option observed (reached (executeCommand (Suc 0) ''again'' fresh)) =
     Some [commandExecuted ''again'', Warning [''Unknown command: again''],
           commandFailed ''again'' ''Unknown command: again'']
   \<and> map_option observed
        (reached (executeCommand (Suc 0) ''again'' (registerAlias ''again'' ''undo'' fresh))) =
     Some [commandExecuted ''again'', Warning [''Cannot undo: no commands in history'']]"
  by code_simp

subsection \<open>Unknown names and factories that throw\<close>

text \<open>
  C7, as the code has it. When the resolved name of a line is not reserved and is not
  registered, or its factory returns a null pointer, or its factory throws, the
  dispatcher returns false to its caller and emits \<open>commandFailed\<close> with the raw line
  and the message \<open>Unknown command: \<close> followed by the resolved name. The signal and
  the return value are the same in the three cases; a factory that throws adds only
  a warning of \<open>createCommand\<close> to the log, before them.
\<close>

theorem unknown_and_failed_construction_report_alike:
  assumes "trimmed commandLine \<noteq> []" and "parseCommandLine commandLine = first # args"
    and "resolveAlias (toLower first) st = nm"
    and "nm \<notin> {''u'', ''undo'', ''redo'', ''repeat'', []}"
  shows "(let st2 = announced commandLine st;
              report = [Warning [''Unknown command: '' @ nm],
                        commandFailed commandLine (''Unknown command: '' @ nm)]
          in (m_commands st (toLower nm) = None \<longrightarrow>
                executeCommand (Suc k) commandLine st = Some (Returned False (emit report st2)))
           \<and> (\<forall>info. m_commands st (toLower nm) = Some info
                    \<and> info_factory info args = Built None \<longrightarrow>
                executeCommand (Suc k) commandLine st = Some (Returned False (emit report st2)))
           \<and> (\<forall>info what. m_commands st (toLower nm) = Some info
                    \<and> info_factory info args = Raised what \<longrightarrow>
                executeCommand (Suc k) commandLine st =
                  Some (Returned False
                    (emit report
                      (emit [Warning [''Failed to create command'', nm, '':'', what]] st2)))))"
  using assms(3,4)
  unfolding executeCommand_Suc [OF assms(1,2)] Let_def
  by (auto simp: createCommand_def)

theorem unknown_and_failed_construction_report_alike_witness:
  "trimmed ''box 1'' \<noteq> [] \<and> parseCommandLine ''box 1'' = ''box'' # [''1'']
   \<and> resolveAlias (toLower ''box'') st_raising = ''box''
   \<and> ''box'' \<notin> {''u'', ''undo'', ''redo'', ''repeat'', []}
   \<and> map_option info_name (m_commands st_raising (toLower ''box'')) = Some ''box''
   \<and> executeCommand (Suc 0) ''box 1'' st_raising =
       Some (Returned False
         (emit [Warning [''Unknown command: box''],
                commandFailed ''box 1'' ''Unknown command: box'']
           (emit [Warning [''Failed to create command'', ''box'', '':'', ''no box today'']]
             (announced ''box 1'' st_raising))))"
proof -
  have h1: "trimmed ''box 1'' \<noteq> []" by code_simp
  have h2: "parseCommandLine ''box 1'' = ''box'' # [''1'']" by code_simp
  have h3: "resolveAlias (toLower ''box'') st_raising = ''box''" by code_simp
  have h4: "''box'' \<notin> {''u'', ''undo'', ''redo'', ''repeat'', []}" by simp
  obtain info where i: "m_commands st_raising (toLower ''box'') = Some info"
    and f: "info_factory info [''1''] = Raised ''no box today''" and n: "info_name info = ''box''"
    by (simp add: st_raising_def registerCommand_def toLower_def toLower_char_def)
  from unknown_and_failed_construction_report_alike [OF h1 h2 h3 h4, of 0] i f n h1 h2 h3 h4
  show ?thesis by (simp add: Let_def)
qed

text \<open>
  C7 as stated fails: the failure reported for a name that is not registered and the
  failure reported for a registered factory that throws are the same return value and
  the same signals.
\<close>

theorem unknown_and_raising_factory_same_signals:
  "returned (executeCommand (Suc 0) ''box 1'' fresh) = Some False
   \<and> returned (executeCommand (Suc 0) ''box 1'' st_raising) = Some False
   \<and> map_option (signals \<circ> observed) (reached (executeCommand (Suc 0) ''box 1'' fresh)) =
       Some [commandExecuted ''box 1'', commandFailed ''box 1'' ''Unknown command: box'']
   \<and> map_option (signals \<circ> observed) (reached (executeCommand (Suc 0) ''box 1'' st_raising)) =
       Some [commandExecuted ''box 1'', commandFailed ''box 1'' ''Unknown command: box'']"
  by code_simp

subsection \<open>\<open>executeCommand\<close> on a command\<close>

text \<open>
  When \<open>execute()\<close> returns, the command is routed (into the open group, or to
  \<open>addToHistory\<close>) and the call ends in the null dereference; when \<open>execute()\<close>
  throws a \<open>std::exception\<close>, the call returns false; any other exception leaves
  the call. It never returns true.
\<close>

lemma executeCommandPtr_executed:
  assumes "cmd_execute c (document st) = (None, w')"
  shows "executeCommandPtr (Some c) st =
     NullDeref
       (let st3 = st\<lparr>m_commandInProgress := True\<rparr>\<lparr>document := w'\<rparr>\<lparr>m_commandInProgress := False\<rparr>
        in case m_currentGroup st of
             Some g \<Rightarrow> st3\<lparr>m_currentGroup := Some (addCommand (Some c) g)\<rparr>
           | None \<Rightarrow> addToHistory (Some c) st3)"
  using assms by (simp add: executeCommandPtr_def Let_def std_move_def split: option.splits)

lemma executeCommandPtr_threw:
  assumes "cmd_execute c (document st) = (Some (std_exception what), w')"
  shows "executeCommandPtr (Some c) st =
     Returned False
       (emit [Warning [''Command execution failed: '' @ what],
              commandFailed (cmd_name c) (''Command execution failed: '' @ what)]
          (st\<lparr>m_commandInProgress := True\<rparr>\<lparr>document := w'\<rparr>\<lparr>m_commandInProgress := False\<rparr>))"
  using assms by (simp add: executeCommandPtr_def Let_def)

lemma executeCommandPtr_escaped:
  assumes "cmd_execute c (document st) = (Some other_exception, w')"
  shows "executeCommandPtr (Some c) st =
     Escaped (st\<lparr>m_commandInProgress := True\<rparr>\<lparr>document := w'\<rparr>)"
  using assms by (simp add: executeCommandPtr_def Let_def)

lemma executeCommandPtr_cases:
  obtains (null) "p = None" "executeCommandPtr p st = Returned False st"
  | (executed) c st' where "p = Some c" "fst (cmd_execute c (document st)) = None"
      "executeCommandPtr p st = NullDeref st'"
  | (threw) c what w' where "p = Some c"
      "executeCommandPtr p st =
         Returned False
           (emit [Warning [''Command execution failed: '' @ what],
                  commandFailed (cmd_name c) (''Command execution failed: '' @ what)]
              (st\<lparr>m_commandInProgress := True\<rparr>\<lparr>document := w'\<rparr>\<lparr>m_commandInProgress := False\<rparr>))"
  | (escaped) c w' where "p = Some c"
      "executeCommandPtr p st = Escaped (st\<lparr>m_commandInProgress := True\<rparr>\<lparr>document := w'\<rparr>)"
proof (cases p)
  case None
  then show ?thesis using null by (simp add: executeCommandPtr_def)
next
  case (Some c)
  obtain e w' where x: "cmd_execute c (document st) = (e, w')"
    by (cases "cmd_execute c (document st)")
  show ?thesis
  proof (cases e)
    case None
    with x Some executed executeCommandPtr_executed [of c st w'] show ?thesis by simp
  next
    case (Some t)
    show ?thesis
    proof (cases t)
      case (std_exception what)
      with x Some \<open>p = Some c\<close> threw executeCommandPtr_threw [of c st what w'] show ?thesis
        by simp
    next
      case other_exception
      with x Some \<open>p = Some c\<close> escaped executeCommandPtr_escaped [of c st w'] show ?thesis
        by simp
    qed
  qed
qed

lemma executeCommandPtr_never_true: "executeCommandPtr p st \<noteq> Returned True st'"
  by (cases p st rule: executeCommandPtr_cases) auto

lemma addToHistory_redoStack:
  "m_redoStack (addToHistory (Some c) st) = (if cmd_canUndo c then [] else m_redoStack st)"
  by (simp add: addToHistory_def Let_def emit_def updateUndoRedoState_def trimHistory_def)

lemma addToHistory_undoStack:
  "m_undoStack (addToHistory (Some c) st) =
     (if cmd_canUndo c then trim_loop (m_undoLimit st) (m_undoStack st @ [c]) else m_undoStack st)"
  by (simp add: addToHistory_def Let_def emit_def updateUndoRedoState_def trimHistory_def)

subsection \<open>What a new engine can reach\<close>

text \<open>
  A new engine is untouched, and every call that does not end in the null
  dereference leaves an untouched engine untouched: in no run does the engine live
  on with an entry on a stack, a last command, or a member in its open group.
\<close>

lemma untouched_emit [simp]: "untouched (emit os st) = untouched st"
  by (simp add: untouched_def emit_def)

lemma untouched_announced [simp]: "untouched (announced l st) = untouched st"
  by (simp add: untouched_def)

lemma untouched_new: "untouched (new_CommandManager w)"
  by (simp add: untouched_def new_CommandManager_def initializeBuiltinCommands_def
      registerAlias_def registerBuiltinCommand_def)

lemma untouched_register:
  "untouched (registerCommand n f st) = untouched st"
  "untouched (registerAlias a c st) = untouched st"
  "untouched (unregisterCommand n st) = untouched st"
  "untouched (unregisterAlias a st) = untouched st"
  by (simp_all add: untouched_def registerCommand_def registerAlias_def unregisterCommand_def
      unregisterAlias_def)

lemma untouched_setUndoLimit: "untouched st \<Longrightarrow> untouched (setUndoLimit lim st)"
  by (simp add: untouched_def setUndoLimit_def trimHistory_def)

lemma untouched_undo: "untouched st \<Longrightarrow> ends_in untouched N (undo st)"
  by (simp add: undo_def canUndo_def) (simp add: untouched_def)

lemma untouched_redo: "untouched st \<Longrightarrow> ends_in untouched N (redo st)"
  by (simp add: redo_def canRedo_def) (simp add: untouched_def)

lemma untouched_endGroup: "untouched st \<Longrightarrow> untouched (endGroup st)"
  by (auto simp: untouched_def endGroup_def Let_def emit_def split: option.splits)

lemma untouched_beginGroup: "untouched st \<Longrightarrow> untouched (beginGroup g st)"
proof -
  assume u: "untouched st"
  have "untouched (endGroup (emit os st))" for os
    using u by (simp add: untouched_endGroup)
  with u show ?thesis
    by (auto simp: beginGroup_def Let_def untouched_def emit_def split: option.splits)
qed

lemma untouched_createCommand: "untouched st \<Longrightarrow> ends_in untouched N (createCommand n a st)"
  by (auto simp: createCommand_def split: option.splits built.splits)

lemma untouched_executeCommandPtr:
  "untouched st \<Longrightarrow> ends_in untouched (\<lambda>s. True) (executeCommandPtr p st)"
  by (cases p st rule: executeCommandPtr_cases) (auto simp: untouched_def emit_def)

lemma untouched_executeCommand:
  assumes "untouched st" and "executeCommand k l st = Some out"
  shows "ends_in untouched (\<lambda>s. True) out"
  by (rule executeCommand_preserves [where P = untouched and N = "\<lambda>s. True", OF _ _ _ _ _ _ _ assms(2)])
     (simp_all add: untouched_undo untouched_redo untouched_createCommand
        untouched_executeCommandPtr assms(1))

lemma untouched_executeScriptText:
  assumes "untouched st" and "executeScriptText k t st = Some out"
  shows "ends_in untouched (\<lambda>s. True) out"
proof -
  let ?st1 = "beginGroup ''Script Execution'' st"
  from assms(2) obtain o1 where
    o1: "script_loop k (split_SkipEmptyParts t (CHR 0x0A)) True ?st1 = Some o1"
    by (auto simp: executeScriptText_def Let_def split: option.splits)
  have "ends_in untouched (\<lambda>s. True) o1"
    by (rule script_loop_preserves [where P = untouched and N = "\<lambda>s. True", OF _ _ _ o1])
       (simp_all add: untouched_executeCommand untouched_beginGroup assms(1))
  with assms(2) o1 show ?thesis
    by (cases o1) (auto simp: executeScriptText_def Let_def untouched_endGroup)
qed

subsection \<open>The last command\<close>

text \<open>
  C1. The line \<open>box 1 2\<close>, submitted to a new engine in which \<open>box\<close> is registered,
  is dispatched with success: its command is built and executed. The call then ends
  in the null dereference of \<open>m_lastCommand = command->name()\<close>: nothing is stored
  as the last command, neither the raw line nor anything else, and no later
  \<open>repeat\<close> can be submitted.
\<close>

theorem executed_line_stores_no_last_command:
  "map_option faulted (executeCommand (Suc 0) ''box 1 2'' st_box) = Some True
   \<and> map_option document (reached (executeCommand (Suc 0) ''box 1 2'' st_box)) =
       Some [''execute box'']
   \<and> map_option m_lastCommand (reached (executeCommand (Suc 0) ''box 1 2'' st_box)) = Some []"
  by code_simp

subsection \<open>The redo stack after a command has been executed\<close>


subsection \<open>Entries of the two stacks\<close>

text \<open>
  Whatever the state, no operation puts an entry on a stack whose \<open>canUndo()\<close> is
  false.
\<close>

lemma list_all_trim_loop: "list_all P xs \<Longrightarrow> list_all P (trim_loop lim xs)"
  by (induction xs) auto

lemma list_all_butlast: "list_all P xs \<Longrightarrow> list_all P (butlast xs)"
  by (induction xs) auto

lemma list_all_last: "list_all P xs \<Longrightarrow> xs \<noteq> [] \<Longrightarrow> P (last xs)"
  by (induction xs) auto

lemma hu_emit [simp]: "history_undoable (emit os st) = history_undoable st"
  by (simp add: history_undoable_def emit_def)

lemma hu_announced [simp]: "history_undoable (announced l st) = history_undoable st"
  by (simp add: history_undoable_def)

lemma hu_addToHistory: "history_undoable st \<Longrightarrow> history_undoable (addToHistory p st)"
  by (cases p)
     (auto simp: history_undoable_def addToHistory_def Let_def emit_def updateUndoRedoState_def
        trimHistory_def list_all_trim_loop)

lemma hu_undo: "history_undoable st \<Longrightarrow> history_undoable (state_of (undo st))"
  by (auto simp: history_undoable_def undo_def canUndo_def Let_def emit_def
      updateUndoRedoState_def list_all_butlast list_all_last
      split: prod.splits option.splits thrown.splits)

lemma hu_redo: "history_undoable st \<Longrightarrow> history_undoable (state_of (redo st))"
  by (auto simp: history_undoable_def redo_def canRedo_def Let_def emit_def
      updateUndoRedoState_def list_all_butlast list_all_last
      split: prod.splits option.splits thrown.splits)

lemma hu_group_update [simp]:
  "history_undoable (st\<lparr>m_currentGroup := g\<rparr>) = history_undoable st"
  by (simp add: history_undoable_def)

lemma hu_endGroup: "history_undoable st \<Longrightarrow> history_undoable (endGroup st)"
  by (auto simp: endGroup_def Let_def hu_addToHistory split: option.splits)

lemma hu_beginGroup: "history_undoable st \<Longrightarrow> history_undoable (beginGroup g st)"
  by (auto simp: beginGroup_def Let_def hu_endGroup split: option.splits)

lemma hu_setUndoLimit: "history_undoable st \<Longrightarrow> history_undoable (setUndoLimit lim st)"
  by (simp add: history_undoable_def setUndoLimit_def trimHistory_def list_all_trim_loop)

lemma hu_createCommand:
  "history_undoable st \<Longrightarrow> history_undoable (state_of (createCommand n a st))"
  by (auto simp: createCommand_def split: option.splits built.splits)

lemma hu_executeCommandPtr:
  "history_undoable st \<Longrightarrow> history_undoable (state_of (executeCommandPtr p st))"
proof (cases p st rule: executeCommandPtr_cases)
  case (executed c st')
  assume h: "history_undoable st"
  from executed(2) obtain w' where e: "cmd_execute c (document st) = (None, w')"
    by (cases "cmd_execute c (document st)") auto
  have "history_undoable (st\<lparr>m_commandInProgress := True\<rparr>\<lparr>document := w'\<rparr>\<lparr>m_commandInProgress := False\<rparr>)"
    using h by (simp add: history_undoable_def)
  then show ?thesis
    unfolding \<open>p = Some c\<close> executeCommandPtr_executed [OF e]
    by (auto simp: Let_def hu_addToHistory split: option.splits)
qed (auto simp: history_undoable_def emit_def)

lemma hu_executeCommand:
  assumes "history_undoable st" and "executeCommand k l st = Some out"
  shows "history_undoable (state_of out)"
proof -
  have "ends_in history_undoable history_undoable out"
    by (rule executeCommand_preserves
          [where P = history_undoable and N = history_undoable, OF _ _ _ _ _ _ _ assms(2)])
       (simp_all add: ends_in_state_of hu_undo hu_redo hu_createCommand hu_executeCommandPtr
          assms(1))
  then show ?thesis by (simp add: ends_in_state_of)
qed

subsection \<open>Groups\<close>

lemma endGroup_pushes_one_entry:
  assumes "m_currentGroup st = Some (n, cs)" and "cs \<noteq> []"
  shows "m_undoStack (endGroup st) = trim_loop (m_undoLimit st) (m_undoStack st @ [CADCommandGroup n cs])"
    and "m_redoStack (endGroup st) = []"
    and "m_currentGroup (endGroup st) = None"
  using assms
  by (simp_all add: endGroup_def Let_def emit_def addToHistory_def updateUndoRedoState_def
        trimHistory_def)

lemma endGroup_empty_group:
  assumes "m_currentGroup st = Some (n, [])"
  shows "m_undoStack (endGroup st) = m_undoStack st"
    and "m_redoStack (endGroup st) = m_redoStack st"
    and "m_currentGroup (endGroup st) = None"
  using assms by (simp_all add: endGroup_def Let_def emit_def)

lemma undo_members_last_first:
  "undo_members (cs @ [c]) w =
     (case cmd_undo c w of
        (Some ex, w') \<Rightarrow> (Some ex, w')
      | (None, w') \<Rightarrow> undo_members cs w')"
  by (induction cs arbitrary: w) (auto split: prod.splits option.splits)

lemma group_undo_order:
  "cmd_undo (CADCommandGroup n [a, b]) w =
     (case cmd_undo b w of
        (Some ex, w') \<Rightarrow> (Some ex, w')
      | (None, w') \<Rightarrow> cmd_undo a w')"
  by (auto split: prod.splits option.splits)

text \<open>
  C4. In the sequence \<open>beginGroup(G); execute(a); execute(b); endGroup()\<close> with
  \<open>a\<close> and \<open>b\<close> executing without an exception, the first \<open>execute\<close> runs \<open>a\<close>,
  appends it to the open group and ends in the null dereference: \<open>b\<close> is not executed,
  \<open>endGroup\<close> is not reached and the undo stack has no entry. (Taken by themselves,
  \<open>endGroup\<close> pushes a group with members as one entry and pushes nothing for a group
  without, and the group's \<open>undo()\<close> undoes the later member first:
  \<open>endGroup_pushes_one_entry\<close>, \<open>endGroup_empty_group\<close>, \<open>group_undo_order\<close>.)
\<close>

theorem group_scenario_faults:
  "faulted group_scenario
   \<and> document (state_of group_scenario) = [''execute a'']
   \<and> m_undoStack (state_of group_scenario) = []
   \<and> map_option (map cmd_name \<circ> snd) (m_currentGroup (state_of group_scenario)) = Some [''a'']"
  by code_simp

subsection \<open>Commands that cannot be undone\<close>


subsection \<open>Scripts, line by line\<close>

text \<open>
  The loop of \<open>executeScriptText\<close> is \<open>submit_each\<close> on the lines of the script: as
  long as every submission returns, each remaining line is submitted, in order, after
  a line that failed too, and the value returned is true exactly when every line
  returned true.
\<close>

lemma script_loop_submit_each:
  "script_loop n lines success st =
     (case submit_each n
             (filter (\<lambda>t. \<not> (t = [] \<or> startsWith t (CHR '';'') \<or> startsWith t (CHR ''#'')))
                (map trimmed lines)) st of
        None \<Rightarrow> None
      | Some (NullDeref s) \<Rightarrow> Some (NullDeref s)
      | Some (Escaped s) \<Rightarrow> Some (Escaped s)
      | Some (Returned oks s) \<Rightarrow> Some (Returned (success \<and> list_all id oks) s))"
proof (induction lines arbitrary: success st)
  case Nil
  then show ?case by simp
next
  case (Cons line lines)
  show ?case
    by (auto simp: Let_def Cons.IH split: option.splits outcome.splits)
qed

lemma executeScriptText_submit_each:
  "executeScriptText n scriptText st =
     (case submit_each n (script_lines scriptText) (beginGroup ''Script Execution'' st) of
        None \<Rightarrow> None
      | Some (NullDeref s) \<Rightarrow> Some (NullDeref s)
      | Some (Escaped s) \<Rightarrow> Some (Escaped s)
      | Some (Returned oks s) \<Rightarrow> Some (Returned (list_all id oks) (endGroup s)))"
  by (simp add: executeScriptText_def Let_def script_loop_submit_each script_lines_def
      split: option.splits outcome.splits)

text \<open>
  C9. \<open>executeScriptText\<close> does not submit every remaining line: on the script of
  the two lines \<open>box\<close> and \<open>undo\<close>, with \<open>box\<close> registered, the first line builds
  and executes its command and the call ends in the null dereference of
  \<open>executeCommand\<close>; the line \<open>undo\<close> is never submitted and no value is returned.
\<close>

theorem script_stops_at_executed_line:
  "script_lines script_box_undo = [''box'', ''undo'']
   \<and> returned (executeScriptText (Suc 0) script_box_undo st_box) = None
   \<and> map_option faulted (executeScriptText (Suc 0) script_box_undo st_box) = Some True
   \<and> map_option document (reached (executeScriptText (Suc 0) script_box_undo st_box)) =
       Some [''execute box'']
   \<and> map_option (signals \<circ> observed) (reached (executeScriptText (Suc 0) script_box_undo st_box)) =
       Some [groupingChanged True, commandExecuted ''box'']"
  by code_simp

end
